theory Spec2Isabelle
  imports Complex_Main
begin

section \<open>Data model of \<^verbatim>\<open>backend/ml_engine.py\<close>\<close>

text \<open>
  Python floats are modelled as \<^typ>\<open>real\<close> (exact arithmetic, no rounding, no NaN),
  Python ints as \<^typ>\<open>int\<close>. Every call of \<^verbatim>\<open>time.time()\<close> is an explicit
  argument \<open>now\<close> of the function that makes it.
\<close>

datatype TrackingSource = CAMERA | WIFI_RSSI | WIFI_CSI | WIFI_MONITOR | FUSION | LOST

text \<open>
  The dataclass \<^verbatim>\<open>DetectionResult\<close>; a field whose default is \<^verbatim>\<open>None\<close> is an option.
  The last field, \<open>np_scalar\<close>, is not an attribute: it records a run-time type that the
  HOL types erase and \<^verbatim>\<open>json.dumps\<close> does not. It is true when the object holds a numpy
  scalar where a Python one is annotated: \<open>motion_detected\<close> a \<^verbatim>\<open>numpy.bool_\<close> (the
  comparison of a \<^verbatim>\<open>np.var\<close> result with a threshold, never cast, where \<open>confidence\<close>
  and \<open>rssi_variance\<close> go through \<^verbatim>\<open>float()\<close>), or bounding-box coordinates that are
  \<^verbatim>\<open>numpy.int64\<close> (what \<^verbatim>\<open>CameraVisionModule.detect\<close> appends for each box).
\<close>

record DetectionResult =
  timestamp :: real
  source :: TrackingSource
  motion_detected :: bool
  confidence :: real
  bboxes :: "(int \<times> int \<times> int \<times> int) list option"
  class_ids :: "int list option"
  class_names :: "string list option"
  tracking_ids :: "int list option"
  poses :: "((real \<times> real \<times> real) list \<times> bool) option list option"
  rssi :: "real option"
  rssi_variance :: "real option"
  csi_data :: "real list option"
  activity :: string
  activity_confidence :: real
  out_of_frame :: bool
  handoff_active :: bool
  np_scalar :: bool

text \<open>The positional constructor call \<^verbatim>\<open>DetectionResult(ts, src, motion, conf)\<close> with
  every other field at its declared default; the caller decides \<open>np_scalar\<close>, which is
  false when \<open>motion\<close> is a Python literal.\<close>

definition new_result :: "real \<Rightarrow> TrackingSource \<Rightarrow> bool \<Rightarrow> real \<Rightarrow> DetectionResult" where
  "new_result ts src motion conf =
     \<lparr> timestamp = ts, source = src, motion_detected = motion, confidence = conf,
       bboxes = None, class_ids = None, class_names = None, tracking_ids = None,
       poses = None, rssi = None, rssi_variance = None, csi_data = None,
       activity = ''UNKNOWN'', activity_confidence = 0,
       out_of_frame = False, handoff_active = False, np_scalar = False \<rparr>"

subsection \<open>The object store\<close>

text \<open>
  \<^verbatim>\<open>fuse\<close> assigns to attributes of the objects it is handed and returns one of them,
  so events live in a store and are passed by reference. A reference is an address;
  \<open>fresh\<close> is the next unused address, and constructing an object allocates there.
\<close>

type_synonym ref = nat

record store =
  objs :: "ref \<Rightarrow> DetectionResult"
  fresh :: ref

definition alloc :: "DetectionResult \<Rightarrow> store \<Rightarrow> ref \<times> store" where
  "alloc v st = (fresh st, st\<lparr> objs := (objs st)(fresh st := v), fresh := Suc (fresh st) \<rparr>)"

definition assign :: "ref \<Rightarrow> (DetectionResult \<Rightarrow> DetectionResult) \<Rightarrow> store \<Rightarrow> store" where
  "assign r f st = st\<lparr> objs := (objs st)(r := f (objs st r)) \<rparr>"

subsection \<open>numpy statistics\<close>

text \<open>\<^verbatim>\<open>np.var\<close> is the population variance: the mean of the squared deviations
  from the mean. (On an empty list numpy returns NaN; the adapters below never call it
  on one except \<^verbatim>\<open>process_csi\<close> on an empty sample.)\<close>

definition np_mean :: "real list \<Rightarrow> real" where
  "np_mean xs = sum_list xs / real (length xs)"

definition np_var :: "real list \<Rightarrow> real" where
  "np_var xs = np_mean (map (\<lambda>x. (x - np_mean xs)\<^sup>2) xs)"

subsection \<open>\<^verbatim>\<open>ESP8266RSSIModule\<close> (coarse-signal adapter)\<close>

record ESP8266RSSIModule =
  rssi_window_size :: int
  rssi_variance_threshold :: real
  rssi_window :: "int list"

text \<open>\<^verbatim>\<open>window.append(x); if len(window) > size: window.pop(0)\<close>, the three lines
  that open each adapter's \<^verbatim>\<open>process_*\<close> method.\<close>

definition push_window :: "int \<Rightarrow> 'a list \<Rightarrow> 'a \<Rightarrow> 'a list" where
  "push_window cap w x =
     (let w1 = w @ [x] in if int (length w1) > cap then tl w1 else w1)"

definition process_rssi ::
  "real \<Rightarrow> int \<Rightarrow> ESP8266RSSIModule \<Rightarrow> DetectionResult \<times> ESP8266RSSIModule" where
  "process_rssi now r m =
     (let w = push_window (rssi_window_size m) (rssi_window m) r;
          m' = m\<lparr> rssi_window := w \<rparr>
      in if length w < 5 then
           ((new_result now WIFI_RSSI False 0)\<lparr> rssi := Some (real_of_int r) \<rparr>, m')
         else
           let variance = np_var (map real_of_int w);
               motion = (variance > rssi_variance_threshold m);
               conf = min (variance / 20) 1
           in ((new_result now WIFI_RSSI motion conf)
                 \<lparr> rssi := Some (real_of_int r),
                   rssi_variance := Some variance,
                   activity := (if motion then ''WALKING'' else ''STILL''),
                   np_scalar := True \<rparr>, m'))"

subsection \<open>\<^verbatim>\<open>ESP32CSIModule\<close> (fine-signal adapter)\<close>

record ESP32CSIModule =
  csi_window_size :: int
  csi_motion_threshold :: real
  csi_window :: "real list list"

definition process_csi ::
  "real \<Rightarrow> real list \<Rightarrow> ESP32CSIModule \<Rightarrow> DetectionResult \<times> ESP32CSIModule" where
  "process_csi now sample m =
     (let w = push_window (csi_window_size m) (csi_window m) sample;
          m' = m\<lparr> csi_window := w \<rparr>;
          variance = np_var sample;
          motion = (variance > csi_motion_threshold m);
          conf = min (variance / 1) 1
      in ((new_result now WIFI_CSI motion conf)
            \<lparr> csi_data := Some sample,
              activity := (if motion then ''MOTION'' else ''CLEAR''),
              np_scalar := True \<rparr>, m'))"

subsection \<open>\<^verbatim>\<open>WiFiMonitorModule\<close> (raw-packet adapter)\<close>

record WiFiMonitorModule =
  packet_window :: int
  packets :: "int list"



subsection \<open>Runs of an adapter\<close>



subsection \<open>\<^verbatim>\<open>SensorFusionEngine\<close>\<close>

record SensorFusionEngine =
  handoff_delay_ms :: real
  handoff_start :: "real option"

text \<open>The three assignments of the handoff branch:
  \<^verbatim>\<open>res.handoff_active = True; res.out_of_frame = True; res.source = TrackingSource.FUSION\<close>.\<close>

definition mark_handoff :: "DetectionResult \<Rightarrow> DetectionResult" where
  "mark_handoff res = res\<lparr> handoff_active := True \<rparr>\<lparr> out_of_frame := True \<rparr>\<lparr> source := FUSION \<rparr>"

text \<open>
  \<^verbatim>\<open>fuse(cam, wifi)\<close>. A dataclass instance is truthy, so \<^verbatim>\<open>if cam\<close> tests for
  \<^verbatim>\<open>None\<close> only. The result is the reference returned, the engine and the store.
\<close>

definition fuse ::
  "real \<Rightarrow> ref option \<Rightarrow> ref option \<Rightarrow> SensorFusionEngine \<times> store
     \<Rightarrow> ref \<times> SensorFusionEngine \<times> store" where
  "fuse now cam wifi es =
     (let eng = fst es; st = snd es in
      case cam of
        Some c \<Rightarrow>
          if motion_detected (objs st c) then
            (c, eng\<lparr> handoff_start := None \<rparr>, assign c (\<lambda>res. res\<lparr> source := FUSION \<rparr>) st)
          else
            let start = (case handoff_start eng of None \<Rightarrow> now | Some t \<Rightarrow> t);
                eng' = eng\<lparr> handoff_start := Some start \<rparr>
            in if (now - start) * 1000 > handoff_delay_ms eng' then
                 (case wifi of
                    Some w \<Rightarrow>
                      if motion_detected (objs st w) then
                        (w, eng',
                         assign w mark_handoff st)
                      else (c, eng', st)
                  | None \<Rightarrow> (c, eng', st))
               else (c, eng', st)
      | None \<Rightarrow>
          (case wifi of
             Some w \<Rightarrow> (w, eng, st)
           | None \<Rightarrow>
               (let a = alloc (new_result now LOST False 0) st in (fst a, eng, snd a))))"

text \<open>A run of fusion cycles on one engine and one store: each cycle has its clock
  reading and the two references it is called with. The references returned are
  collected in order.\<close>

fun fuse_cycles ::
  "(real \<times> ref option \<times> ref option) list \<Rightarrow> SensorFusionEngine \<times> store
     \<Rightarrow> ref list \<times> SensorFusionEngine \<times> store" where
  "fuse_cycles [] es = ([], es)"
| "fuse_cycles ((now, cam, wifi) # cs) es =
     (let r = fuse now cam wifi es;
          rest = fuse_cycles cs (snd r)
      in (fst r # fst rest, snd rest))"

section \<open>The server, \<^verbatim>\<open>backend/server.py\<close>\<close>

subsection \<open>\<^verbatim>\<open>serialize_detection_result\<close>\<close>

text \<open>The dict sent on the live detection feed, one field per key, and \<open>w_np_scalar\<close>,
  which is no key: it says that a value of the dict is a numpy scalar.\<close>

record wire =
  w_timestamp :: real
  w_source :: string
  w_motion :: bool
  w_confidence :: real
  w_bboxes :: "(int \<times> int \<times> int \<times> int) list"
  w_class_ids :: "int list"
  w_class_names :: "string list"
  w_tracking_ids :: "int list"
  w_poses :: "((real \<times> real \<times> real) list \<times> bool) option list"
  w_rssi :: "real option"
  w_rssi_var :: "real option"
  w_csi :: "real list"
  w_activity :: string
  w_activity_conf :: real
  w_out_of_frame :: bool
  w_handoff_active :: bool
  w_np_scalar :: bool

fun source_value :: "TrackingSource \<Rightarrow> string" where
  "source_value CAMERA = ''camera''"
| "source_value WIFI_RSSI = ''wifi_rssi''"
| "source_value WIFI_CSI = ''wifi_csi''"
| "source_value WIFI_MONITOR = ''wifi_monitor''"
| "source_value FUSION = ''fusion''"
| "source_value LOST = ''lost''"

text \<open>\<^verbatim>\<open>x or []\<close> for a list field that may be \<^verbatim>\<open>None\<close>.\<close>

definition or_empty :: "'a list option \<Rightarrow> 'a list" where
  "or_empty x = (case x of None \<Rightarrow> [] | Some xs \<Rightarrow> xs)"

definition serialize_detection_result :: "DetectionResult \<Rightarrow> wire" where
  "serialize_detection_result result =
     \<lparr> w_timestamp = timestamp result,
       w_source = source_value (source result),
       w_motion = motion_detected result,
       w_confidence = confidence result,
       w_bboxes = or_empty (bboxes result),
       w_class_ids = or_empty (class_ids result),
       w_class_names = or_empty (class_names result),
       w_tracking_ids = or_empty (tracking_ids result),
       w_poses = or_empty (poses result),
       w_rssi = rssi result,
       w_rssi_var = rssi_variance result,
       w_csi = or_empty (csi_data result),
       w_activity = activity result,
       w_activity_conf = activity_confidence result,
       w_out_of_frame = out_of_frame result,
       w_handoff_active = handoff_active result,
       w_np_scalar = np_scalar result \<rparr>"

subsection \<open>\<^verbatim>\<open>MLEngine\<close> and the module-level state\<close>

datatype DetectionMode = CAMERA_ONLY | ESP8266 | ESP32 | WIFI_ADAPTER | HYBRID

text \<open>
  \<open>camera\<close> says whether a camera module was constructed; what its \<^verbatim>\<open>detect()\<close>
  returns comes from the external detector and is an input of \<open>camera_step\<close> below.
  \<open>last_wifi_result\<close> is what \<^verbatim>\<open>getattr(ml_engine, '_last_wifi_result', None)\<close> reads.
\<close>

record MLEngine =
  mode :: DetectionMode
  camera :: bool
  esp8266 :: "ESP8266RSSIModule option"
  esp32 :: "ESP32CSIModule option"
  wifi_mon :: "WiFiMonitorModule option"
  fusion :: "SensorFusionEngine option"
  last_wifi_result :: "ref option"

type_synonym client = nat

text \<open>
  The globals \<^verbatim>\<open>websocket_clients\<close>, \<^verbatim>\<open>ml_engine\<close> and \<^verbatim>\<open>latest_detection\<close>,
  the object store, and \<open>outbox\<close>: every text frame a \<^verbatim>\<open>send_text\<close> on the live
  detection feed has written, oldest first, with the client it went to.
\<close>

record server =
  websocket_clients :: "client list"
  ml_engine :: "MLEngine option"
  latest_detection :: "ref option"
  heap :: store
  outbox :: "(client \<times> wire) list"

datatype py_error = AttributeError | ValueError | TypeError | RuntimeError

text \<open>
  \<^verbatim>\<open>json.dumps(message)\<close>: the encoder raises \<^verbatim>\<open>TypeError\<close> on a \<^verbatim>\<open>numpy.bool_\<close> and on
  a \<^verbatim>\<open>numpy.int64\<close>; every other value the dict can hold is encoded. The text of a frame
  is not modelled: a frame is the dict that was encoded.
\<close>

definition json_dumps :: "wire \<Rightarrow> py_error + wire" where
  "json_dumps message = (if w_np_scalar message then Inl TypeError else Inr message)"

subsection \<open>\<^verbatim>\<open>broadcast_detection\<close>\<close>

text \<open>
  The first loop. The body of its \<^verbatim>\<open>try\<close> is
  \<^verbatim>\<open>await client.send_text(json.dumps(message))\<close>: the argument is evaluated first, and
  when the encoder raises no write is attempted and nothing is awaited. \<open>ok c\<close> says
  whether the write to client \<open>c\<close> returns during this broadcast. Whatever is raised, the
  bare \<^verbatim>\<open>except\<close> appends the client to \<^verbatim>\<open>dead_clients\<close>. The accumulator is the frames
  written and the dead list.
\<close>

fun send_loop ::
  "(client \<Rightarrow> bool) \<Rightarrow> wire \<Rightarrow> client list \<Rightarrow> (client \<times> wire) list \<times> client list
     \<Rightarrow> (client \<times> wire) list \<times> client list" where
  "send_loop ok message [] acc = acc"
| "send_loop ok message (c # cs) acc =
     (case json_dumps message of
        Inl e \<Rightarrow> send_loop ok message cs (fst acc, snd acc @ [c])
      | Inr frame \<Rightarrow>
          if ok c then send_loop ok message cs (fst acc @ [(c, frame)], snd acc)
          else send_loop ok message cs (fst acc, snd acc @ [c]))"

text \<open>The second loop: \<^verbatim>\<open>list.remove\<close> deletes the first equal element and raises
  \<^verbatim>\<open>ValueError\<close> when there is none.\<close>

fun remove_loop :: "client list \<Rightarrow> client list \<Rightarrow> py_error option \<times> client list" where
  "remove_loop [] reg = (None, reg)"
| "remove_loop (d # ds) reg =
     (if d \<in> set reg then remove_loop ds (remove1 d reg) else (Some ValueError, reg))"

text \<open>
  One call of \<^verbatim>\<open>broadcast_detection(result)\<close>, in the execution in which no other
  task runs while it is suspended in a write. The coroutine can be suspended nowhere
  else: the assignment to \<^verbatim>\<open>latest_detection\<close> and the serialisation come before the
  first write, and when \<^verbatim>\<open>json.dumps\<close> raises for the event no write is reached, so that
  this is then the only execution. The result is the exception that left the coroutine,
  if any, and the state it leaves. The argument is \<^verbatim>\<open>None\<close> when the engine method that
  produced it found its module missing; reading \<^verbatim>\<open>result.timestamp\<close> then raises.
\<close>

definition broadcast_detection ::
  "(client \<Rightarrow> bool) \<Rightarrow> ref option \<Rightarrow> server \<Rightarrow> py_error option \<times> server" where
  "broadcast_detection ok result s =
     (let s1 = s\<lparr> latest_detection := result \<rparr> in
      case result of
        None \<Rightarrow> (Some AttributeError, s1)
      | Some r \<Rightarrow>
          let message = serialize_detection_result (objs (heap s1) r);
              sd = send_loop ok message (websocket_clients s1) ([], []);
              rm = remove_loop (snd sd) (websocket_clients s1)
          in (fst rm, s1\<lparr> outbox := outbox s1 @ fst sd, websocket_clients := snd rm \<rparr>))"

subsection \<open>The live detection feed, \<^verbatim>\<open>websocket_endpoint\<close>\<close>

text \<open>
  What \<^verbatim>\<open>await websocket.send_text(...)\<close> does in the endpoint: it returns, it raises
  \<^verbatim>\<open>WebSocketDisconnect\<close>, or it raises something else. And how one turn of the
  endpoint's receive loop ends: the loop goes on, the \<^verbatim>\<open>except WebSocketDisconnect\<close>
  branch ran and the coroutine returned, or an exception left the coroutine.
\<close>

datatype send_outcome = Sent | Disconnected | SendFailed

datatype turn = Continue | Closed | Raised py_error

text \<open>
  The body of the receive loop for one text frame \<open>data\<close> from client \<open>c\<close>, with the
  outcome \<open>out\<close> of the write if one is attempted. \<^verbatim>\<open>json.dumps(msg)\<close> is evaluated before
  the write; the only handler is \<^verbatim>\<open>except WebSocketDisconnect\<close>, whose
  \<^verbatim>\<open>websocket_clients.remove(websocket)\<close> raises when a broadcast has pruned the client
  already.
\<close>

definition websocket_receive_text ::
  "send_outcome \<Rightarrow> client \<Rightarrow> string \<Rightarrow> server \<Rightarrow> turn \<times> server" where
  "websocket_receive_text out c data s =
     (if data = ''get_latest'' then
        (case latest_detection s of
           None \<Rightarrow> (Continue, s)
         | Some r \<Rightarrow>
             (case json_dumps (serialize_detection_result (objs (heap s) r)) of
                Inl e \<Rightarrow> (Raised e, s)
              | Inr frame \<Rightarrow>
                  (case out of
                     Sent \<Rightarrow> (Continue, s\<lparr> outbox := outbox s @ [(c, frame)] \<rparr>)
                   | Disconnected \<Rightarrow>
                       if c \<in> set (websocket_clients s)
                       then (Closed, s\<lparr> websocket_clients := remove1 c (websocket_clients s) \<rparr>)
                       else (Raised ValueError, s)
                   | SendFailed \<Rightarrow> (Raised RuntimeError, s))))
      else (Continue, s))"

subsection \<open>String helpers of the datagram handlers\<close>

text \<open>\<^verbatim>\<open>str.split(sep)\<close> with a one-character separator: never an empty list.\<close>

fun split_on :: "char \<Rightarrow> string \<Rightarrow> string list" where
  "split_on sep [] = [[]]"
| "split_on sep (c # cs) =
     (if c = sep then [] # split_on sep cs
      else (case split_on sep cs of [] \<Rightarrow> [[c]] | p # ps \<Rightarrow> (c # p) # ps))"

definition startswith :: "string \<Rightarrow> string \<Rightarrow> bool" where
  "startswith s p = (take (length p) s = p)"

text \<open>
  The builtins \<^verbatim>\<open>int\<close> and \<^verbatim>\<open>float\<close> applied to a string are parameters of the
  handlers (\<open>None\<close> is \<^verbatim>\<open>ValueError\<close>). The two parsers below accept an optional minus
  sign followed by ASCII digits, on which they agree with the builtins; they serve as
  instances in the examples.
\<close>

definition digit_val :: "char \<Rightarrow> nat option" where
  "digit_val = map_of
     [(CHR ''0'', 0), (CHR ''1'', 1), (CHR ''2'', 2), (CHR ''3'', 3), (CHR ''4'', 4),
      (CHR ''5'', 5), (CHR ''6'', 6), (CHR ''7'', 7), (CHR ''8'', 8), (CHR ''9'', 9)]"

fun dec_nat :: "nat \<Rightarrow> string \<Rightarrow> nat option" where
  "dec_nat acc [] = Some acc"
| "dec_nat acc (c # cs) =
     (case digit_val c of None \<Rightarrow> None | Some d \<Rightarrow> dec_nat (10 * acc + d) cs)"

definition dec_int :: "string \<Rightarrow> int option" where
  "dec_int s =
     (case s of
        [] \<Rightarrow> None
      | c # cs \<Rightarrow>
          if c = CHR ''-'' then
            (if cs = [] then None else map_option (\<lambda>n. - int n) (dec_nat 0 cs))
          else map_option int (dec_nat 0 s))"

definition dec_float :: "string \<Rightarrow> real option" where
  "dec_float s = map_option real_of_int (dec_int s)"

subsection \<open>\<^verbatim>\<open>ESP8266UDPProtocol.datagram_received\<close>\<close>

text \<open>
  The handler from \<open>message\<close>, the datagram decoded and stripped. Every exception
  inside the \<^verbatim>\<open>try\<close> is logged and dropped: the state is left as it was.
  \<^verbatim>\<open>asyncio.create_task(broadcast_detection(result))\<close> is run at once and to completion;
  an exception of the task is not the handler's and is dropped with the state it left.
\<close>

definition process_esp8266_rssi ::
  "real \<Rightarrow> int \<Rightarrow> MLEngine \<times> store \<Rightarrow> ref option \<times> MLEngine \<times> store" where
  "process_esp8266_rssi now v es =
     (case esp8266 (fst es) of
        None \<Rightarrow> (None, es)
      | Some m \<Rightarrow>
          let pr = process_rssi now v m;
              a = alloc (fst pr) (snd es)
          in (Some (fst a), (fst es)\<lparr> esp8266 := Some (snd pr) \<rparr>, snd a))"

definition esp8266_datagram_received ::
  "(string \<Rightarrow> int option) \<Rightarrow> (client \<Rightarrow> bool) \<Rightarrow> real \<Rightarrow> string \<Rightarrow> server \<Rightarrow> server" where
  "esp8266_datagram_received py_int ok now message s =
     (if startswith message ''RSS:'' then
        (case split_on CHR '':'' message of
           _ # field # _ \<Rightarrow>
             (case py_int field of
                None \<Rightarrow> s
              | Some rssi_val \<Rightarrow>
                  (case ml_engine s of
                     None \<Rightarrow> s
                   | Some eng \<Rightarrow>
                       let p = process_esp8266_rssi now rssi_val (eng, heap s);
                           s1 = s\<lparr> ml_engine := Some (fst (snd p)), heap := snd (snd p) \<rparr>
                       in snd (broadcast_detection ok (fst p) s1)))
         | _ \<Rightarrow> s)
      else s)"

subsection \<open>\<^verbatim>\<open>ESP32UDPProtocol.datagram_received\<close>\<close>

definition process_esp32_csi ::
  "real \<Rightarrow> real list \<Rightarrow> MLEngine \<times> store \<Rightarrow> ref option \<times> MLEngine \<times> store" where
  "process_esp32_csi now csi es =
     (case esp32 (fst es) of
        None \<Rightarrow> (None, es)
      | Some m \<Rightarrow>
          let pr = process_csi now csi m;
              a = alloc (fst pr) (snd es)
          in (Some (fst a), (fst es)\<lparr> esp32 := Some (snd pr) \<rparr>, snd a))"

text \<open>\<^verbatim>\<open>[float(x) for x in parts[1:65]]\<close>: the slice is \<open>take 64 (drop 1 parts)\<close>, and the
  comprehension raises at the first field \<^verbatim>\<open>float\<close> rejects.\<close>

definition parse_csi :: "(string \<Rightarrow> real option) \<Rightarrow> string list \<Rightarrow> real list option" where
  "parse_csi py_float parts = those (map py_float (take 64 (drop 1 parts)))"

definition esp32_datagram_received ::
  "(string \<Rightarrow> real option) \<Rightarrow> (client \<Rightarrow> bool) \<Rightarrow> real \<Rightarrow> string \<Rightarrow> server \<Rightarrow> server" where
  "esp32_datagram_received py_float ok now message s =
     (let parts = split_on CHR '','' message in
      if length parts \<ge> 64 then
        (case parse_csi py_float parts of
           None \<Rightarrow> s
         | Some csi \<Rightarrow>
             (case ml_engine s of
                None \<Rightarrow> s
              | Some eng \<Rightarrow>
                  let p = process_esp32_csi now csi (eng, heap s);
                      s1 = s\<lparr> ml_engine := Some (fst (snd p)), heap := snd (snd p) \<rparr>
                  in snd (broadcast_detection ok (fst p) s1)))
      else s)"

subsection \<open>\<^verbatim>\<open>camera_processing_loop\<close>\<close>

text \<open>\<^verbatim>\<open>MLEngine.get_fused_result\<close>: \<^verbatim>\<open>fuse\<close> when there is a fusion engine, else
  \<^verbatim>\<open>cam or wifi\<close>. The caller always passes a camera event.\<close>

definition get_fused_result ::
  "real \<Rightarrow> ref \<Rightarrow> ref option \<Rightarrow> MLEngine \<times> store \<Rightarrow> ref \<times> MLEngine \<times> store" where
  "get_fused_result now cam wifi es =
     (case fusion (fst es) of
        Some f \<Rightarrow>
          let r = fuse now (Some cam) wifi (f, snd es)
          in (fst r, (fst es)\<lparr> fusion := Some (fst (snd r)) \<rparr>, snd (snd r))
      | None \<Rightarrow> (cam, es))"

text \<open>
  One iteration of the loop body. \<open>detected\<close> is what \<^verbatim>\<open>process_camera_frame()\<close>
  returned (the detector is external); the event is a new object. \<open>now\<close> is the clock
  read inside \<^verbatim>\<open>fuse\<close>. An exception of the broadcast is caught by the loop.
\<close>

definition camera_step ::
  "(client \<Rightarrow> bool) \<Rightarrow> real \<Rightarrow> DetectionResult option \<Rightarrow> server \<Rightarrow> server" where
  "camera_step ok now detected s =
     (case ml_engine s of
        None \<Rightarrow> s
      | Some eng \<Rightarrow>
          if \<not> camera eng then s
          else
            (case detected of
               None \<Rightarrow> s
             | Some d \<Rightarrow>
                 let a = alloc d (heap s);
                     p = (if mode eng = HYBRID
                          then get_fused_result now (fst a) (last_wifi_result eng) (eng, snd a)
                          else (fst a, eng, snd a));
                     s1 = s\<lparr> ml_engine := Some (fst (snd p)), heap := snd (snd p),
                             latest_detection := Some (fst p) \<rparr>
                 in snd (broadcast_detection ok (Some (fst p)) s1)))"

text \<open>For a run of cycles \<open>(now, c, w)\<close> on an engine whose handoff clock started at
  \<open>T\<close>: the WiFi references of the cycles whose elapsed time exceeds the delay.\<close>

definition switched :: "SensorFusionEngine \<Rightarrow> real \<Rightarrow> (real \<times> ref \<times> ref) list \<Rightarrow> ref set" where
  "switched eng T cycles =
     {w. \<exists>now c. (now, c, w) \<in> set cycles \<and> (now - T) * 1000 > handoff_delay_ms eng}"

section \<open>Example objects\<close>

text \<open>A store of three events: at address 0 a vision event without detection, at 1
  a WiFi event reporting motion, as \<open>process_rssi\<close> makes them on a full window, at 2 a
  vision event with one detection; and an engine whose handoff clock started at time 0
  with a delay of 1000 ms.\<close>

definition ex_cam_idle :: DetectionResult where
  "ex_cam_idle = (new_result 10 CAMERA False 0)
     \<lparr> bboxes := Some [], class_ids := Some [], class_names := Some [],
       tracking_ids := Some [], poses := Some [] \<rparr>"

definition ex_wifi_motion :: DetectionResult where
  "ex_wifi_motion = (new_result 10 WIFI_RSSI True 1)
     \<lparr> rssi := Some (- 40), rssi_variance := Some 25, activity := ''WALKING'',
       np_scalar := True \<rparr>"

definition ex_cam_motion :: DetectionResult where
  "ex_cam_motion = (new_result 10 CAMERA True (4 / 5))
     \<lparr> bboxes := Some [(10, 20, 110, 220)], class_ids := Some [0],
       class_names := Some [''person''], tracking_ids := Some [0], poses := Some [None],
       np_scalar := True \<rparr>"

definition ex_store :: store where
  "ex_store = \<lparr> objs = (\<lambda>_. ex_cam_idle)(1 := ex_wifi_motion, 2 := ex_cam_motion), fresh = 3 \<rparr>"

definition ex_engine :: SensorFusionEngine where
  "ex_engine = \<lparr> handoff_delay_ms = 1000, handoff_start = Some 0 \<rparr>"

text \<open>Adapter modules as their constructors leave them (empty windows), with a
  capacity of 5 samples, of 2 packets and of 100 samples.\<close>

definition ex_rssi_module :: ESP8266RSSIModule where
  "ex_rssi_module = \<lparr> rssi_window_size = 5, rssi_variance_threshold = 5, rssi_window = [] \<rparr>"


definition ex_csi_module :: ESP32CSIModule where
  "ex_csi_module = \<lparr> csi_window_size = 100, csi_motion_threshold = 3 / 10, csi_window = [] \<rparr>"

text \<open>
  A hybrid-mode server with three clients and the store above, and a fine-signal
  datagram of 64 comma-separated fields: a timestamp and 63 amplitudes, all 1.
\<close>

definition ex_ml_engine :: MLEngine where
  "ex_ml_engine = \<lparr> mode = HYBRID, camera = True, esp8266 = Some ex_rssi_module,
     esp32 = Some ex_csi_module, wifi_mon = None, fusion = Some ex_engine,
     last_wifi_result = None \<rparr>"

definition ex_server :: server where
  "ex_server = \<lparr> websocket_clients = [7, 8, 9], ml_engine = Some ex_ml_engine,
     latest_detection = None, heap = ex_store, outbox = [] \<rparr>"

text \<open>The same server once the fine-signal adapter's event for the sample \<open>[1, 3]\<close> has
  been constructed, at address 3.\<close>

definition ex_csi_server :: server where
  "ex_csi_server =
     ex_server\<lparr> heap := snd (alloc (fst (process_csi 1 [1, 3] ex_csi_module)) ex_store) \<rparr>"

definition ex_csi_datagram :: string where
  "ex_csi_datagram = ''0'' @ concat (replicate 63 '',1'')"

definition ex_csi_sample :: "real list" where
  "ex_csi_sample = replicate 63 1"

section \<open>Facts about the store\<close>

lemma objs_assign: "objs (assign r f st) a = (if a = r then f (objs st r) else objs st a)"
  by (simp add: assign_def)

lemma fresh_assign [simp]: "fresh (assign r f st) = fresh st"
  by (simp add: assign_def)

lemma motion_mark_handoff [simp]: "motion_detected (mark_handoff d) = motion_detected d"
  by (simp add: mark_handoff_def)

section \<open>Fusion: reacquisition\<close>

text \<open>
  C2. In every fusion cycle whose vision event exists and reports motion, whatever the
  engine's handoff state and whatever the WiFi event, \<open>fuse\<close> returns the vision event,
  its source re-tagged \<open>FUSION\<close> and nothing else in the store changed, and
  \<open>handoff_start\<close> is reset to \<open>None\<close>.
\<close>

theorem fuse_reacquisition:
  assumes "motion_detected (objs st c)"
  shows "fuse now (Some c) wifi (eng, st) =
           (c, eng\<lparr> handoff_start := None \<rparr>,
            st\<lparr> objs := (objs st)(c := (objs st c)\<lparr> source := FUSION \<rparr>) \<rparr>)"
  using assms by (simp add: fuse_def assign_def)

theorem fuse_reacquisition_witness:
  "motion_detected (objs ex_store 2) \<and>
   fst (fuse 5 (Some 2) (Some 1) (ex_engine, ex_store)) = 2 \<and>
   handoff_start (fst (snd (fuse 5 (Some 2) (Some 1) (ex_engine, ex_store)))) = None \<and>
   source (objs (snd (snd (fuse 5 (Some 2) (Some 1) (ex_engine, ex_store)))) 2) = FUSION"
  using fuse_reacquisition [of ex_store 2 5 "Some 1" ex_engine]
  by (simp add: ex_cam_idle_def ex_wifi_motion_def ex_cam_motion_def ex_store_def
      ex_engine_def new_result_def)

section \<open>Fusion: handoff timing\<close>

lemma fuse_idle_step:
  assumes "\<not> motion_detected (objs st c)" and "motion_detected (objs st w)"
    and "handoff_start eng = Some T"
  shows "fuse now (Some c) (Some w) (eng, st) =
           (if (now - T) * 1000 > handoff_delay_ms eng
            then (w, eng, assign w mark_handoff st)
            else (c, eng, st))"
  using assms by (simp add: fuse_def)

lemma idle_run:
  assumes "handoff_start eng = Some T"
    and "\<forall>(now, c, w) \<in> set cycles. \<not> motion_detected (objs st c) \<and> motion_detected (objs st w)"
  shows "fuse_cycles (map (\<lambda>(now, c, w). (now, Some c, Some w)) cycles) (eng, st) =
           (map (\<lambda>(now, c, w). if (now - T) * 1000 > handoff_delay_ms eng then w else c) cycles,
            eng,
            st\<lparr> objs := (\<lambda>r. if r \<in> switched eng T cycles then mark_handoff (objs st r) else objs st r) \<rparr>)"
  using assms
proof (induction cycles arbitrary: st)
  case Nil
  then show ?case by (simp add: switched_def)
next
  case (Cons cyc cycles)
  obtain now c w where cyc: "cyc = (now, c, w)" by (cases cyc) auto
  have idle: "\<not> motion_detected (objs st c)" and mot: "motion_detected (objs st w)"
    using Cons.prems(2) cyc by auto
  let ?st1 = "if (now - T) * 1000 > handoff_delay_ms eng then assign w mark_handoff st else st"
  have step: "fuse now (Some c) (Some w) (eng, st) =
      ((if (now - T) * 1000 > handoff_delay_ms eng then w else c), eng, ?st1)"
    using fuse_idle_step [OF idle mot Cons.prems(1)] by simp
  have same: "motion_detected (objs ?st1 r) = motion_detected (objs st r)" for r
    by (simp add: objs_assign)
  have pres: "\<forall>(now, c, w) \<in> set cycles.
      \<not> motion_detected (objs ?st1 c) \<and> motion_detected (objs ?st1 w)"
    using Cons.prems(2) unfolding same by simp
  note IH = Cons.IH [OF Cons.prems(1) pres]
  have sw: "switched eng T (cyc # cycles) =
      (if (now - T) * 1000 > handoff_delay_ms eng then {w} else {}) \<union> switched eng T cycles"
    unfolding switched_def cyc by auto
  have store_eq: "?st1\<lparr> objs := (\<lambda>r. if r \<in> switched eng T cycles then mark_handoff (objs ?st1 r) else objs ?st1 r) \<rparr>
      = st\<lparr> objs := (\<lambda>r. if r \<in> switched eng T (cyc # cycles) then mark_handoff (objs st r) else objs st r) \<rparr>"
    unfolding sw by (auto simp: assign_def fun_eq_iff mark_handoff_def)
  show ?case
    unfolding cyc using IH step store_eq by (simp add: cyc)
qed

text \<open>
  C1, as the claim states it, fails at the boundary: \<open>fuse\<close> compares
  \<^verbatim>\<open>(now - handoff_start) * 1000 > handoff_delay_ms\<close>, strictly. With the clock started at
  0 and a delay of 1000 ms, the cycle at time 1 has elapsed = 1000 ms \<open>\<ge>\<close> the delay,
  the vision event reports no detection and the WiFi event reports motion, and yet
  \<open>fuse\<close> returns the vision event and leaves the WiFi event's \<open>handoff_active\<close> unset.
\<close>

theorem fuse_handoff_boundary_counterexample:
  "handoff_start ex_engine = Some 0 \<and>
   \<not> motion_detected (objs ex_store 0) \<and> motion_detected (objs ex_store 1) \<and>
   (1 - 0) * 1000 \<ge> handoff_delay_ms ex_engine \<and>
   fst (fuse 1 (Some 0) (Some 1) (ex_engine, ex_store)) = 0 \<and>
   \<not> handoff_active (objs (snd (snd (fuse 1 (Some 0) (Some 1) (ex_engine, ex_store)))) 1)"
  by (simp add: fuse_def ex_cam_idle_def ex_wifi_motion_def ex_cam_motion_def ex_store_def
      ex_engine_def new_result_def)

text \<open>
  C1, amended. Take any run of fusion cycles on an engine whose handoff clock was set at
  \<open>T\<close>, each cycle called at its time \<open>now\<close> with a vision event \<open>c\<close> that reports no
  detection and a WiFi event \<open>w\<close> that reports motion. Then the output of each cycle is
  the vision event when the elapsed milliseconds \<open>(now - T) * 1000\<close> are at most the
  delay, and the WiFi event when they exceed it; the clock stays at \<open>T\<close>; no vision event
  is changed; and every WiFi event handed over is the event it was with
  \<open>handoff_active\<close> and \<open>out_of_frame\<close> set and its source re-tagged \<open>FUSION\<close>. So the
  switch comes at the first cycle whose elapsed time is strictly greater than the delay.
\<close>

theorem fuse_handoff_timing:
  assumes "handoff_start eng = Some T"
    and "\<forall>(now, c, w) \<in> set cycles. \<not> motion_detected (objs st c) \<and> motion_detected (objs st w)"
  shows "fst (fuse_cycles (map (\<lambda>(now, c, w). (now, Some c, Some w)) cycles) (eng, st))
           = map (\<lambda>(now, c, w). if (now - T) * 1000 > handoff_delay_ms eng then w else c) cycles
         \<and> fst (snd (fuse_cycles (map (\<lambda>(now, c, w). (now, Some c, Some w)) cycles) (eng, st))) = eng
         \<and> (\<forall>(now, c, w) \<in> set cycles.
              objs (snd (snd (fuse_cycles (map (\<lambda>(now, c, w). (now, Some c, Some w)) cycles) (eng, st)))) c
                = objs st c
              \<and> ((now - T) * 1000 > handoff_delay_ms eng \<longrightarrow>
                   objs (snd (snd (fuse_cycles (map (\<lambda>(now, c, w). (now, Some c, Some w)) cycles) (eng, st)))) w
                     = (objs st w)\<lparr> handoff_active := True, out_of_frame := True, source := FUSION \<rparr>))"
proof -
  have notsw: "c \<notin> switched eng T cycles" if "(now, c, w) \<in> set cycles" for now c w
  proof
    assume "c \<in> switched eng T cycles"
    then obtain now' c' where "(now', c', c) \<in> set cycles" by (auto simp: switched_def)
    with assms(2) have "motion_detected (objs st c)" by auto
    moreover from that assms(2) have "\<not> motion_detected (objs st c)" by auto
    ultimately show False by simp
  qed
  have sw: "w \<in> switched eng T cycles"
    if "(now, c, w) \<in> set cycles" "(now - T) * 1000 > handoff_delay_ms eng" for now c w
    using that by (auto simp: switched_def)
  show ?thesis
    unfolding idle_run [OF assms]
    using notsw sw by (auto simp: mark_handoff_def)
qed

theorem fuse_handoff_timing_witness:
  "handoff_start ex_engine = Some 0 \<and>
   \<not> motion_detected (objs ex_store 0) \<and> motion_detected (objs ex_store 1) \<and>
   fst (fuse_cycles [(1 / 2, Some 0, Some 1), (1, Some 0, Some 1), (2, Some 0, Some 1)]
          (ex_engine, ex_store)) = [0, 0, 1]"
  using fuse_handoff_timing [of ex_engine 0 "[(1 / 2, 0, 1), (1, 0, 1), (2, 0, 1)]" ex_store]
  by (simp add: ex_cam_idle_def ex_wifi_motion_def ex_cam_motion_def ex_store_def
      ex_engine_def new_result_def)

section \<open>Fusion: the fall-through\<close>

text \<open>
  C3. Whenever neither the reacquisition rule nor the handoff rule returns (there is
  no vision event; or the vision event reports no detection and the delay has not been
  exceeded, or there is no WiFi event, or the WiFi event reports no motion), \<open>fuse\<close>
  returns the vision event if there is one, else the WiFi event if there is one, in both
  cases leaving the store as it was; and else a newly constructed event whose source is
  \<open>LOST\<close>, with no motion and confidence 0, every existing object left as it was.
\<close>

theorem fuse_fallthrough:
  assumes "cam = None \<or>
           (\<exists>c. cam = Some c \<and> \<not> motion_detected (objs st c) \<and>
                (\<not> (now - (case handoff_start eng of None \<Rightarrow> now | Some t \<Rightarrow> t)) * 1000
                       > handoff_delay_ms eng
                 \<or> wifi = None
                 \<or> (\<exists>w. wifi = Some w \<and> \<not> motion_detected (objs st w))))"
  shows "case cam of
           Some c \<Rightarrow>
             fst (fuse now cam wifi (eng, st)) = c \<and> snd (snd (fuse now cam wifi (eng, st))) = st
         | None \<Rightarrow>
             (case wifi of
                Some w \<Rightarrow>
                  fst (fuse now cam wifi (eng, st)) = w \<and>
                  snd (snd (fuse now cam wifi (eng, st))) = st
              | None \<Rightarrow>
                  fst (fuse now cam wifi (eng, st)) = fresh st \<and>
                  objs (snd (snd (fuse now cam wifi (eng, st)))) (fresh st)
                    = new_result now LOST False 0 \<and>
                  source (objs (snd (snd (fuse now cam wifi (eng, st)))) (fresh st)) = LOST \<and>
                  \<not> motion_detected (objs (snd (snd (fuse now cam wifi (eng, st)))) (fresh st)) \<and>
                  confidence (objs (snd (snd (fuse now cam wifi (eng, st)))) (fresh st)) = 0 \<and>
                  (\<forall>r. r \<noteq> fresh st \<longrightarrow>
                     objs (snd (snd (fuse now cam wifi (eng, st)))) r = objs st r))"
  using assms
  by (auto simp: fuse_def alloc_def new_result_def Let_def split: option.splits)

theorem fuse_fallthrough_witness:
  "fst (fuse 7 None None (ex_engine, ex_store)) = 3 \<and>
   source (objs (snd (snd (fuse 7 None None (ex_engine, ex_store)))) 3) = LOST \<and>
   \<not> motion_detected (objs (snd (snd (fuse 7 None None (ex_engine, ex_store)))) 3) \<and>
   confidence (objs (snd (snd (fuse 7 None None (ex_engine, ex_store)))) 3) = 0 \<and>
   \<not> motion_detected (objs ex_store 0) \<and>
   \<not> (1 / 2 - 0) * 1000 > handoff_delay_ms ex_engine \<and>
   fst (fuse (1 / 2) (Some 0) (Some 1) (ex_engine, ex_store)) = 0 \<and>
   snd (snd (fuse (1 / 2) (Some 0) (Some 1) (ex_engine, ex_store))) = ex_store \<and>
   fst (fuse 7 None (Some 1) (ex_engine, ex_store)) = 1"
  using fuse_fallthrough [where cam = None and st = ex_store and now = 7 and eng = ex_engine
        and wifi = None]
    fuse_fallthrough [where cam = "Some 0" and st = ex_store and now = "1 / 2"
        and eng = ex_engine and wifi = "Some 1"]
    fuse_fallthrough [where cam = None and st = ex_store and now = 7 and eng = ex_engine
        and wifi = "Some 1"]
  by (simp add: ex_cam_idle_def ex_wifi_motion_def ex_cam_motion_def ex_store_def
      ex_engine_def new_result_def)

section \<open>Fusion: events are mutated in place\<close>

lemma fuse_store_cases:
  "fresh st \<le> fresh (snd (snd (fuse now cam wifi (eng, st)))) \<and>
   (r < fresh st \<longrightarrow>
      objs (snd (snd (fuse now cam wifi (eng, st)))) r = objs st r \<or>
      objs (snd (snd (fuse now cam wifi (eng, st)))) r = (objs st r)\<lparr> source := FUSION \<rparr> \<or>
      objs (snd (snd (fuse now cam wifi (eng, st)))) r = mark_handoff (objs st r))"
  by (auto simp: fuse_def alloc_def objs_assign Let_def split: option.splits)

lemma fuse_cycles_sticky:
  assumes "r < fresh st"
  shows "fresh st \<le> fresh (snd (snd (fuse_cycles cs (eng, st)))) \<and>
         (source (objs st r) = FUSION \<longrightarrow> source (objs (snd (snd (fuse_cycles cs (eng, st)))) r) = FUSION) \<and>
         (handoff_active (objs st r) \<longrightarrow> handoff_active (objs (snd (snd (fuse_cycles cs (eng, st)))) r)) \<and>
         (out_of_frame (objs st r) \<longrightarrow> out_of_frame (objs (snd (snd (fuse_cycles cs (eng, st)))) r))"
  using assms
proof (induction cs arbitrary: eng st)
  case Nil
  then show ?case by simp
next
  case (Cons cyc cs)
  obtain now cam wifi where cyc: "cyc = (now, cam, wifi)" by (cases cyc) auto
  obtain r1 e1 st1 where f: "fuse now cam wifi (eng, st) = (r1, e1, st1)"
    by (cases "fuse now cam wifi (eng, st)") auto
  from fuse_store_cases [of st now cam wifi eng r] f Cons.prems
  have mono: "fresh st \<le> fresh st1"
    and cases: "objs st1 r = objs st r \<or> objs st1 r = (objs st r)\<lparr> source := FUSION \<rparr>
                 \<or> objs st1 r = mark_handoff (objs st r)"
    by auto
  have r1: "r < fresh st1" using mono Cons.prems by simp
  from cases have keep:
    "source (objs st r) = FUSION \<longrightarrow> source (objs st1 r) = FUSION"
    "handoff_active (objs st r) \<longrightarrow> handoff_active (objs st1 r)"
    "out_of_frame (objs st r) \<longrightarrow> out_of_frame (objs st1 r)"
    by (auto simp: mark_handoff_def)
  from Cons.IH [OF r1, of e1] mono keep show ?case
    by (auto simp: cyc f Let_def)
qed

text \<open>
  C10. \<open>fuse\<close> returns the very reference it was given and allocates nothing: when the
  vision branch fires, the caller's vision object has its source set to \<open>FUSION\<close>; when
  the handoff branch fires, the caller's WiFi object has \<open>handoff_active\<close> and
  \<open>out_of_frame\<close> set and its source set to \<open>FUSION\<close>. After any further run of fusion
  cycles \<open>later\<close>, whatever they are called with, those fields of that object still
  hold these values.
\<close>

theorem fuse_mutates_in_place:
  "(c < fresh st \<and> motion_detected (objs st c) \<longrightarrow>
      fst (fuse now (Some c) wifi (eng, st)) = c \<and>
      fresh (snd (snd (fuse now (Some c) wifi (eng, st)))) = fresh st \<and>
      source (objs (snd (snd (fuse now (Some c) wifi (eng, st)))) c) = FUSION \<and>
      source (objs (snd (snd (fuse_cycles later (snd (fuse now (Some c) wifi (eng, st)))))) c)
        = FUSION)
   \<and>
   (w < fresh st \<and> \<not> motion_detected (objs st c) \<and> motion_detected (objs st w) \<and>
    (now - (case handoff_start eng of None \<Rightarrow> now | Some t \<Rightarrow> t)) * 1000 > handoff_delay_ms eng \<longrightarrow>
      fst (fuse now (Some c) (Some w) (eng, st)) = w \<and>
      fresh (snd (snd (fuse now (Some c) (Some w) (eng, st)))) = fresh st \<and>
      handoff_active (objs (snd (snd (fuse now (Some c) (Some w) (eng, st)))) w) \<and>
      out_of_frame (objs (snd (snd (fuse now (Some c) (Some w) (eng, st)))) w) \<and>
      source (objs (snd (snd (fuse now (Some c) (Some w) (eng, st)))) w) = FUSION \<and>
      handoff_active
        (objs (snd (snd (fuse_cycles later (snd (fuse now (Some c) (Some w) (eng, st)))))) w) \<and>
      out_of_frame
        (objs (snd (snd (fuse_cycles later (snd (fuse now (Some c) (Some w) (eng, st)))))) w) \<and>
      source
        (objs (snd (snd (fuse_cycles later (snd (fuse now (Some c) (Some w) (eng, st)))))) w)
        = FUSION)"
proof (rule conjI; rule impI)
  assume a: "c < fresh st \<and> motion_detected (objs st c)"
  then have f: "fuse now (Some c) wifi (eng, st) =
      (c, eng\<lparr> handoff_start := None \<rparr>, assign c (\<lambda>res. res\<lparr> source := FUSION \<rparr>) st)"
    by (simp add: fuse_def)
  have v: "c < fresh (assign c (\<lambda>res. res\<lparr> source := FUSION \<rparr>) st)" using a by simp
  show "fst (fuse now (Some c) wifi (eng, st)) = c \<and>
      fresh (snd (snd (fuse now (Some c) wifi (eng, st)))) = fresh st \<and>
      source (objs (snd (snd (fuse now (Some c) wifi (eng, st)))) c) = FUSION \<and>
      source (objs (snd (snd (fuse_cycles later (snd (fuse now (Some c) wifi (eng, st)))))) c)
        = FUSION"
    using fuse_cycles_sticky [OF v, of later "eng\<lparr> handoff_start := None \<rparr>"]
    by (simp add: f objs_assign)
next
  assume a: "w < fresh st \<and> \<not> motion_detected (objs st c) \<and> motion_detected (objs st w) \<and>
    (now - (case handoff_start eng of None \<Rightarrow> now | Some t \<Rightarrow> t)) * 1000 > handoff_delay_ms eng"
  define start where "start = (case handoff_start eng of None \<Rightarrow> now | Some t \<Rightarrow> t)"
  from a have f: "fuse now (Some c) (Some w) (eng, st) =
      (w, eng\<lparr> handoff_start := Some start \<rparr>, assign w mark_handoff st)"
    by (simp add: fuse_def start_def Let_def)
  have v: "w < fresh (assign w mark_handoff st)" using a by simp
  show "fst (fuse now (Some c) (Some w) (eng, st)) = w \<and>
      fresh (snd (snd (fuse now (Some c) (Some w) (eng, st)))) = fresh st \<and>
      handoff_active (objs (snd (snd (fuse now (Some c) (Some w) (eng, st)))) w) \<and>
      out_of_frame (objs (snd (snd (fuse now (Some c) (Some w) (eng, st)))) w) \<and>
      source (objs (snd (snd (fuse now (Some c) (Some w) (eng, st)))) w) = FUSION \<and>
      handoff_active
        (objs (snd (snd (fuse_cycles later (snd (fuse now (Some c) (Some w) (eng, st)))))) w) \<and>
      out_of_frame
        (objs (snd (snd (fuse_cycles later (snd (fuse now (Some c) (Some w) (eng, st)))))) w) \<and>
      source
        (objs (snd (snd (fuse_cycles later (snd (fuse now (Some c) (Some w) (eng, st)))))) w)
        = FUSION"
    using fuse_cycles_sticky [OF v, of later "eng\<lparr> handoff_start := Some start \<rparr>"]
    by (simp add: f objs_assign mark_handoff_def)
qed

theorem fuse_mutates_in_place_witness:
  "(2 < fresh ex_store \<and> motion_detected (objs ex_store 2)) \<and>
   fst (fuse 5 (Some 2) None (ex_engine, ex_store)) = 2 \<and>
   source (objs (snd (snd (fuse_cycles [(6, Some 0, Some 1), (7, None, None)]
             (snd (fuse 5 (Some 2) None (ex_engine, ex_store)))))) 2) = FUSION \<and>
   (1 < fresh ex_store \<and> \<not> motion_detected (objs ex_store 0) \<and>
    motion_detected (objs ex_store 1) \<and>
    (2 - (case handoff_start ex_engine of None \<Rightarrow> 2 | Some t \<Rightarrow> t)) * 1000
       > handoff_delay_ms ex_engine) \<and>
   fst (fuse 2 (Some 0) (Some 1) (ex_engine, ex_store)) = 1 \<and>
   handoff_active (objs (snd (snd (fuse_cycles [(6, Some 0, Some 1), (7, None, None)]
             (snd (fuse 2 (Some 0) (Some 1) (ex_engine, ex_store)))))) 1)"
  using fuse_mutates_in_place [where c = 2 and st = ex_store and now = 5 and wifi = None
      and eng = ex_engine and later = "[(6, Some 0, Some 1), (7, None, None)]"]
    fuse_mutates_in_place [where c = 0 and w = 1 and st = ex_store and now = 2
      and eng = ex_engine and later = "[(6, Some 0, Some 1), (7, None, None)]"]
  by (simp add: ex_cam_idle_def ex_wifi_motion_def ex_cam_motion_def ex_store_def
      ex_engine_def new_result_def)

section \<open>The sliding window\<close>

lemma push_window_length:
  assumes "0 \<le> cap" and "length w \<le> nat cap"
  shows "length (push_window cap w x) \<le> nat cap"
  using assms by (auto simp: push_window_def Let_def)








lemma np_var_12345: "np_var [1, 2, 3, 4, 5] = 2"
  by (simp add: np_var_def np_mean_def power2_eq_square)



section \<open>The coarse-signal adapter\<close>

text \<open>
  C6. One call of \<open>process_rssi\<close>, judged on the window as the push leaves it. With
  fewer than 5 samples the event is the bare constructor's with the raw value only: no
  motion, confidence 0, no variance, activity \<open>UNKNOWN\<close>. With 5 or more, motion is
  "population variance of the window > threshold", confidence is
  \<open>min (variance / 20) 1\<close>, and the activity is \<open>WALKING\<close> on motion and \<open>STILL\<close>
  otherwise. In both cases a window whose variance is at most the threshold gives no
  motion.
\<close>

theorem process_rssi_spec:
  "(length (rssi_window (snd (process_rssi now r m))) < 5 \<longrightarrow>
      fst (process_rssi now r m)
        = (new_result now WIFI_RSSI False 0)\<lparr> rssi := Some (real_of_int r) \<rparr> \<and>
      \<not> motion_detected (fst (process_rssi now r m)) \<and>
      confidence (fst (process_rssi now r m)) = 0 \<and>
      rssi (fst (process_rssi now r m)) = Some (real_of_int r) \<and>
      rssi_variance (fst (process_rssi now r m)) = None \<and>
      activity (fst (process_rssi now r m)) = ''UNKNOWN'')
   \<and>
   (5 \<le> length (rssi_window (snd (process_rssi now r m))) \<longrightarrow>
      motion_detected (fst (process_rssi now r m))
        = (np_var (map real_of_int (rssi_window (snd (process_rssi now r m))))
             > rssi_variance_threshold m) \<and>
      confidence (fst (process_rssi now r m))
        = min (np_var (map real_of_int (rssi_window (snd (process_rssi now r m)))) / 20) 1 \<and>
      activity (fst (process_rssi now r m))
        = (if motion_detected (fst (process_rssi now r m)) then ''WALKING'' else ''STILL'') \<and>
      rssi_variance (fst (process_rssi now r m))
        = Some (np_var (map real_of_int (rssi_window (snd (process_rssi now r m))))))
   \<and>
   (np_var (map real_of_int (rssi_window (snd (process_rssi now r m))))
      \<le> rssi_variance_threshold m \<longrightarrow> \<not> motion_detected (fst (process_rssi now r m)))
   \<and>
   rssi_window (snd (process_rssi now r m))
     = push_window (rssi_window_size m) (rssi_window m) r"
  by (simp add: process_rssi_def Let_def new_result_def)

theorem process_rssi_spec_witness:
  "length (rssi_window (snd (process_rssi 7 (- 50) ex_rssi_module))) < 5 \<and>
   \<not> motion_detected (fst (process_rssi 7 (- 50) ex_rssi_module)) \<and>
   confidence (fst (process_rssi 7 (- 50) ex_rssi_module)) = 0 \<and>
   rssi (fst (process_rssi 7 (- 50) ex_rssi_module)) = Some (- 50) \<and>
   5 \<le> length (rssi_window (snd (process_rssi 7 5 (ex_rssi_module\<lparr> rssi_window := [1, 2, 3, 4] \<rparr>)))) \<and>
   np_var (map real_of_int
       (rssi_window (snd (process_rssi 7 5 (ex_rssi_module\<lparr> rssi_window := [1, 2, 3, 4] \<rparr>)))))
     \<le> rssi_variance_threshold (ex_rssi_module\<lparr> rssi_window := [1, 2, 3, 4] \<rparr>) \<and>
   \<not> motion_detected (fst (process_rssi 7 5 (ex_rssi_module\<lparr> rssi_window := [1, 2, 3, 4] \<rparr>))) \<and>
   confidence (fst (process_rssi 7 5 (ex_rssi_module\<lparr> rssi_window := [1, 2, 3, 4] \<rparr>))) = 1 / 10 \<and>
   activity (fst (process_rssi 7 5 (ex_rssi_module\<lparr> rssi_window := [1, 2, 3, 4] \<rparr>))) = ''STILL''"
  using process_rssi_spec [of 7 "- 50" ex_rssi_module]
    process_rssi_spec [of 7 5 "ex_rssi_module\<lparr> rssi_window := [1, 2, 3, 4] \<rparr>"]
  by (simp add: ex_rssi_module_def process_rssi_def push_window_def Let_def new_result_def
      np_var_12345)

section \<open>The fine-signal adapter\<close>

text \<open>
  C8. For a non-empty sample, \<open>process_csi\<close> computes motion, confidence and activity
  from the variance over the sample's own components: motion iff that variance exceeds
  the threshold, confidence \<open>min (variance / 1) 1\<close>, activity \<open>MOTION\<close> or \<open>CLEAR\<close>. Two
  calls with the same sample on modules with the same threshold agree on all three,
  whatever their windows hold and whenever they are made.
\<close>

theorem process_csi_sample_only:
  assumes "sample \<noteq> []"
    and "csi_motion_threshold m1 = csi_motion_threshold m2"
  shows "motion_detected (fst (process_csi now1 sample m1))
           = (np_var sample > csi_motion_threshold m1)
       \<and> confidence (fst (process_csi now1 sample m1)) = min (np_var sample / 1) 1
       \<and> activity (fst (process_csi now1 sample m1))
           = (if np_var sample > csi_motion_threshold m1 then ''MOTION'' else ''CLEAR'')
       \<and> motion_detected (fst (process_csi now1 sample m1))
           = motion_detected (fst (process_csi now2 sample m2))
       \<and> confidence (fst (process_csi now1 sample m1))
           = confidence (fst (process_csi now2 sample m2))
       \<and> activity (fst (process_csi now1 sample m1))
           = activity (fst (process_csi now2 sample m2))"
  using assms by (simp add: process_csi_def Let_def new_result_def)

theorem process_csi_sample_only_witness:
  "[1, 3] \<noteq> ([] :: real list) \<and>
   csi_motion_threshold ex_csi_module
     = csi_motion_threshold (ex_csi_module\<lparr> csi_window := [[5, 5], [0, 9]] \<rparr>) \<and>
   motion_detected (fst (process_csi 1 [1, 3] ex_csi_module)) \<and>
   confidence (fst (process_csi 1 [1, 3] ex_csi_module)) = 1 \<and>
   motion_detected (fst (process_csi 2 [1, 3] (ex_csi_module\<lparr> csi_window := [[5, 5], [0, 9]] \<rparr>))) \<and>
   confidence (fst (process_csi 2 [1, 3] (ex_csi_module\<lparr> csi_window := [[5, 5], [0, 9]] \<rparr>))) = 1 \<and>
   activity (fst (process_csi 2 [1, 3] (ex_csi_module\<lparr> csi_window := [[5, 5], [0, 9]] \<rparr>)))
     = ''MOTION''"
  using process_csi_sample_only [of "[1, 3]" ex_csi_module
      "ex_csi_module\<lparr> csi_window := [[5, 5], [0, 9]] \<rparr>" 1 2]
  by (simp add: ex_csi_module_def process_csi_def Let_def new_result_def
      np_var_def np_mean_def power2_eq_square)

section \<open>Broadcasting\<close>

lemma send_loop_encodable:
  "\<not> w_np_scalar message \<Longrightarrow>
   send_loop ok message cs acc =
     (fst acc @ map (\<lambda>c. (c, message)) (filter ok cs), snd acc @ filter (\<lambda>c. \<not> ok c) cs)"
  by (induction cs arbitrary: acc) (auto simp: json_dumps_def)

lemma send_loop_unencodable:
  "w_np_scalar message \<Longrightarrow> send_loop ok message cs acc = (fst acc, snd acc @ cs)"
  by (induction cs arbitrary: acc) (auto simp: json_dumps_def)

lemma remove_loop_dead:
  assumes "\<forall>c \<in> set pre. ok c"
  shows "remove_loop (filter (\<lambda>c. \<not> ok c) xs) (pre @ xs) = (None, pre @ filter ok xs)"
  using assms
proof (induction xs arbitrary: pre)
  case Nil
  then show ?case by simp
next
  case (Cons x xs)
  show ?case
  proof (cases "ok x")
    case True
    with Cons.prems have "\<forall>c \<in> set (pre @ [x]). ok c" by simp
    from Cons.IH [OF this] True show ?thesis by simp
  next
    case False
    with Cons.prems have "x \<notin> set pre" by auto
    then have "remove1 x (pre @ x # xs) = pre @ xs" by (simp add: remove1_append)
    with Cons.IH [OF Cons.prems] False show ?thesis by simp
  qed
qed

lemma remove_loop_all: "remove_loop xs xs = (None, [])"
  using remove_loop_dead [of "[]" "\<lambda>c. False" xs] by simp

text \<open>An event that \<^verbatim>\<open>json.dumps\<close> encodes goes, in registry order, to the subscribers
  whose write returns, and they are the ones left in the registry.\<close>

lemma broadcast_detection_encodable:
  assumes "\<not> np_scalar (objs (heap s) r)"
  shows "broadcast_detection ok (Some r) s =
     (None, s\<lparr> latest_detection := Some r,
               outbox := outbox s @ map (\<lambda>c. (c, serialize_detection_result (objs (heap s) r)))
                                      (filter ok (websocket_clients s)),
               websocket_clients := filter ok (websocket_clients s) \<rparr>)"
proof -
  have enc: "\<not> w_np_scalar (serialize_detection_result (objs (heap s) r))"
    using assms by (simp add: serialize_detection_result_def)
  show ?thesis
    using remove_loop_dead [of "[]" ok "websocket_clients s"]
    by (simp add: broadcast_detection_def Let_def send_loop_encodable [OF enc])
qed

text \<open>An event that holds a numpy scalar goes to nobody, whatever the writes would have
  done, and empties the registry.\<close>

lemma broadcast_detection_unencodable:
  assumes "np_scalar (objs (heap s) r)"
  shows "broadcast_detection ok (Some r) s =
     (None, s\<lparr> latest_detection := Some r, websocket_clients := [] \<rparr>)"
proof -
  have enc: "w_np_scalar (serialize_detection_result (objs (heap s) r))"
    using assms by (simp add: serialize_detection_result_def)
  show ?thesis
    by (simp add: broadcast_detection_def Let_def send_loop_unencodable [OF enc]
        remove_loop_all)
qed

text \<open>
  C9 fails on the code for every event whose \<open>motion_detected\<close> is a \<^verbatim>\<open>numpy.bool_\<close>:
  each event of the fine-signal adapter, and each event of the coarse-signal adapter
  from the fifth sample on. The example publishes the fine-signal adapter's event for
  the sample \<open>[1, 3]\<close> to three registered subscribers, the write to each of which would
  succeed. \<^verbatim>\<open>json.dumps\<close> raises inside the \<^verbatim>\<open>try\<close> for each of them before any write,
  so no frame is written and all three are removed from the registry.
\<close>

theorem broadcast_numpy_event_reaches_nobody:
  "websocket_clients ex_csi_server = [7, 8, 9] \<and>
   outbox ex_csi_server = [] \<and>
   objs (heap ex_csi_server) 3 = fst (process_csi 1 [1, 3] ex_csi_module) \<and>
   np_scalar (fst (process_csi 1 [1, 3] ex_csi_module)) \<and>
   np_scalar (fst (process_rssi 1 5 (ex_rssi_module\<lparr> rssi_window := [1, 2, 3, 4] \<rparr>))) \<and>
   fst (broadcast_detection (\<lambda>c. True) (Some 3) ex_csi_server) = None \<and>
   outbox (snd (broadcast_detection (\<lambda>c. True) (Some 3) ex_csi_server)) = [] \<and>
   websocket_clients (snd (broadcast_detection (\<lambda>c. True) (Some 3) ex_csi_server)) = []"
proof -
  have obj: "objs (heap ex_csi_server) 3 = fst (process_csi 1 [1, 3] ex_csi_module)"
    by (simp add: ex_csi_server_def ex_server_def ex_store_def alloc_def)
  have np: "np_scalar (fst (process_csi 1 [1, 3] ex_csi_module))"
    by (simp add: process_csi_def Let_def)
  have np5: "np_scalar (fst (process_rssi 1 5 (ex_rssi_module\<lparr> rssi_window := [1, 2, 3, 4] \<rparr>)))"
    by (simp add: process_rssi_def Let_def push_window_def ex_rssi_module_def)
  have "np_scalar (objs (heap ex_csi_server) 3)"
    using np by (simp only: obj)
  from broadcast_detection_unencodable [OF this, of "\<lambda>c. True"] obj np np5
  show ?thesis
    by (simp add: ex_csi_server_def ex_server_def)
qed

section \<open>The stored latest event\<close>

lemma process_csi_snd:
  "snd (process_csi now x m) = m\<lparr> csi_window := push_window (csi_window_size m) (csi_window m) x \<rparr>"
  by (simp add: process_csi_def Let_def)

lemma latest_broadcast:
  "latest_detection (snd (broadcast_detection ok result s)) = result"
  by (simp add: broadcast_detection_def Let_def split: option.splits)

lemma heap_broadcast:
  "heap (snd (broadcast_detection ok result s)) = heap s"
  by (simp add: broadcast_detection_def Let_def split: option.splits)

lemma split_on_repeated:
  "split_on CHR '','' (concat (replicate n '',1'')) = [] # replicate n ''1''"
  by (induction n) simp_all

lemma split_csi_datagram: "split_on CHR '','' ex_csi_datagram = ''0'' # replicate 63 ''1''"
  by (simp add: ex_csi_datagram_def split_on_repeated)

lemma dec_float_1: "dec_float ''1'' = Some 1"
  by (simp add: dec_float_def dec_int_def digit_val_def)

lemma those_replicate: "those (replicate n (Some x)) = Some (replicate n x)"
  by (induction n) simp_all

lemma parse_csi_datagram: "parse_csi dec_float (''0'' # replicate 63 ''1'') = Some ex_csi_sample"
  by (simp add: parse_csi_def dec_float_1 ex_csi_sample_def those_replicate)

lemma split_rss: "split_on CHR '':'' ''RSS:-50'' = [''RSS'', ''-50'']"
  by simp

lemma dec_int_m50: "dec_int ''-50'' = Some (- 50)"
  by (simp add: dec_int_def digit_val_def)

text \<open>The example server after the coarse-signal datagram \<^verbatim>\<open>RSS:-50\<close>, its first: the
  adapter's event sits at address 3, it is the stored latest event, and it went to the
  three subscribers.\<close>

lemma first_rss_datagram:
  "esp8266_datagram_received dec_int (\<lambda>c. True) 1 ''RSS:-50'' ex_server =
     ex_server
       \<lparr> ml_engine := Some (ex_ml_engine\<lparr> esp8266 :=
            Some (ex_rssi_module\<lparr> rssi_window := [- 50] \<rparr>) \<rparr>),
         heap := ex_store\<lparr> objs := (objs ex_store)
                   (3 := (new_result 1 WIFI_RSSI False 0)\<lparr> rssi := Some (- 50) \<rparr>),
                 fresh := 4 \<rparr>,
         latest_detection := Some 3,
         outbox := map (\<lambda>c. (c, serialize_detection_result
                     ((new_result 1 WIFI_RSSI False 0)\<lparr> rssi := Some (- 50) \<rparr>))) [7, 8, 9] \<rparr>"
proof -
  have ev: "process_rssi 1 (- 50) ex_rssi_module =
      ((new_result 1 WIFI_RSSI False 0)\<lparr> rssi := Some (- 50) \<rparr>,
       ex_rssi_module\<lparr> rssi_window := [- 50] \<rparr>)"
    by (simp add: process_rssi_def Let_def push_window_def ex_rssi_module_def)
  have enc: "\<not> np_scalar ((new_result 1 WIFI_RSSI False 0)\<lparr> rssi := Some (- 50) \<rparr>)"
    by (simp add: new_result_def)
  show ?thesis
    using enc
    by (simp add: esp8266_datagram_received_def process_esp8266_rssi_def Let_def alloc_def
        startswith_def split_rss dec_int_m50 ev broadcast_detection_encodable
        ex_server_def ex_ml_engine_def ex_store_def)
qed

text \<open>
  C4, as the claim states it, fails: on the hybrid-mode example server the coarse-signal
  datagram \<^verbatim>\<open>RSS:-50\<close> makes \<open>latest_detection\<close> the event \<open>process_rssi\<close> returned, a
  raw adapter event with source \<open>WIFI_RSSI\<close>; the fusion engine is not consulted, and the
  reply to a following \<^verbatim>\<open>get_latest\<close> is that event's serialisation, source
  \<^verbatim>\<open>wifi_rssi\<close>.
\<close>

theorem get_latest_raw_event_counterexample:
  "map_option fusion (ml_engine ex_server) = Some (Some ex_engine) \<and>
   latest_detection (esp8266_datagram_received dec_int (\<lambda>c. True) 1 ''RSS:-50'' ex_server)
     = Some 3 \<and>
   objs (heap (esp8266_datagram_received dec_int (\<lambda>c. True) 1 ''RSS:-50'' ex_server)) 3
     = fst (process_rssi 1 (- 50) ex_rssi_module) \<and>
   source (objs (heap (esp8266_datagram_received dec_int (\<lambda>c. True) 1 ''RSS:-50'' ex_server)) 3)
     = WIFI_RSSI \<and>
   map_option fusion
       (ml_engine (esp8266_datagram_received dec_int (\<lambda>c. True) 1 ''RSS:-50'' ex_server))
     = Some (Some ex_engine) \<and>
   fst (websocket_receive_text Sent 7 ''get_latest''
           (esp8266_datagram_received dec_int (\<lambda>c. True) 1 ''RSS:-50'' ex_server))
     = Continue \<and>
   last (outbox (snd (websocket_receive_text Sent 7 ''get_latest''
           (esp8266_datagram_received dec_int (\<lambda>c. True) 1 ''RSS:-50'' ex_server))))
     = (7, serialize_detection_result (fst (process_rssi 1 (- 50) ex_rssi_module))) \<and>
   w_source (serialize_detection_result (fst (process_rssi 1 (- 50) ex_rssi_module)))
     = ''wifi_rssi''"
  unfolding first_rss_datagram
  by (simp add: websocket_receive_text_def json_dumps_def
      process_rssi_def push_window_def ex_rssi_module_def Let_def new_result_def
      serialize_detection_result_def ex_server_def ex_ml_engine_def ex_store_def)

text \<open>
  C4, amended. On \<^verbatim>\<open>get_latest\<close>, when an event is stored in \<open>latest_detection\<close>, holds
  no numpy scalar and the write to the requesting client returns, the server sends that
  client the event's serialisation and goes on; when no event is stored it sends
  nothing. The stored event is the argument of the latest \<open>broadcast_detection\<close>: for a
  coarse-signal datagram the raw event \<open>process_rssi\<close> returned, for a fine-signal
  datagram the raw event \<open>process_csi\<close> returned; for a camera frame in hybrid mode the
  output of \<open>fuse\<close> on the frame's event and the cached WiFi event; for a camera frame
  in any other mode the frame's event itself.
\<close>

theorem get_latest_resends_stored:
  "(latest_detection s = Some r \<and> \<not> np_scalar (objs (heap s) r) \<longrightarrow>
      websocket_receive_text Sent c ''get_latest'' s =
        (Continue,
         s\<lparr> outbox := outbox s @ [(c, serialize_detection_result (objs (heap s) r))] \<rparr>))
   \<and> (latest_detection s = None \<longrightarrow>
         websocket_receive_text out c ''get_latest'' s = (Continue, s))
   \<and> latest_detection (snd (broadcast_detection ok result s)) = result
   \<and> (startswith message ''RSS:'' \<and> split_on CHR '':'' message = p0 # field # rest \<and>
       py_int field = Some v \<and> ml_engine s = Some eng \<and> esp8266 eng = Some m \<longrightarrow>
         latest_detection (esp8266_datagram_received py_int ok now message s)
           = Some (fresh (heap s)) \<and>
         objs (heap (esp8266_datagram_received py_int ok now message s)) (fresh (heap s))
           = fst (process_rssi now v m))
   \<and> (64 \<le> length (split_on CHR '','' message) \<and>
       parse_csi py_float (split_on CHR '','' message) = Some csi \<and>
       ml_engine s = Some eng \<and> esp32 eng = Some m' \<longrightarrow>
         latest_detection (esp32_datagram_received py_float ok now message s)
           = Some (fresh (heap s)) \<and>
         objs (heap (esp32_datagram_received py_float ok now message s)) (fresh (heap s))
           = fst (process_csi now csi m'))
   \<and> (ml_engine s = Some eng \<and> camera eng \<and> mode eng = HYBRID \<and> fusion eng = Some f \<longrightarrow>
         latest_detection (camera_step ok now (Some d) s)
           = Some (fst (fuse now (Some (fresh (heap s))) (last_wifi_result eng)
                          (f, snd (alloc d (heap s))))) \<and>
         heap (camera_step ok now (Some d) s)
           = snd (snd (fuse now (Some (fresh (heap s))) (last_wifi_result eng)
                          (f, snd (alloc d (heap s))))))
   \<and> (ml_engine s = Some eng \<and> camera eng \<and> mode eng \<noteq> HYBRID \<longrightarrow>
         latest_detection (camera_step ok now (Some d) s) = Some (fresh (heap s)) \<and>
         objs (heap (camera_step ok now (Some d) s)) (fresh (heap s)) = d)"
proof (intro conjI impI)
  assume "latest_detection s = Some r \<and> \<not> np_scalar (objs (heap s) r)"
  then show "websocket_receive_text Sent c ''get_latest'' s =
        (Continue,
         s\<lparr> outbox := outbox s @ [(c, serialize_detection_result (objs (heap s) r))] \<rparr>)"
    by (simp add: websocket_receive_text_def json_dumps_def serialize_detection_result_def)
next
  assume "latest_detection s = None"
  then show "websocket_receive_text out c ''get_latest'' s = (Continue, s)"
    by (simp add: websocket_receive_text_def)
next
  show "latest_detection (snd (broadcast_detection ok result s)) = result"
    by (rule latest_broadcast)
next
  assume a: "startswith message ''RSS:'' \<and> split_on CHR '':'' message = p0 # field # rest \<and>
       py_int field = Some v \<and> ml_engine s = Some eng \<and> esp8266 eng = Some m"
  then show "latest_detection (esp8266_datagram_received py_int ok now message s)
           = Some (fresh (heap s))"
    by (simp add: esp8266_datagram_received_def process_esp8266_rssi_def Let_def alloc_def
        latest_broadcast)
  from a show "objs (heap (esp8266_datagram_received py_int ok now message s)) (fresh (heap s))
           = fst (process_rssi now v m)"
    by (simp add: esp8266_datagram_received_def process_esp8266_rssi_def Let_def alloc_def
        heap_broadcast)
next
  assume a: "64 \<le> length (split_on CHR '','' message) \<and>
       parse_csi py_float (split_on CHR '','' message) = Some csi \<and>
       ml_engine s = Some eng \<and> esp32 eng = Some m'"
  then show "latest_detection (esp32_datagram_received py_float ok now message s)
           = Some (fresh (heap s))"
    by (simp add: esp32_datagram_received_def process_esp32_csi_def Let_def alloc_def
        latest_broadcast)
  from a show "objs (heap (esp32_datagram_received py_float ok now message s)) (fresh (heap s))
           = fst (process_csi now csi m')"
    by (simp add: esp32_datagram_received_def process_esp32_csi_def Let_def alloc_def
        heap_broadcast)
next
  assume a: "ml_engine s = Some eng \<and> camera eng \<and> mode eng = HYBRID \<and> fusion eng = Some f"
  then show "latest_detection (camera_step ok now (Some d) s)
           = Some (fst (fuse now (Some (fresh (heap s))) (last_wifi_result eng)
                          (f, snd (alloc d (heap s)))))"
    by (simp add: camera_step_def get_fused_result_def Let_def alloc_def latest_broadcast)
  from a show "heap (camera_step ok now (Some d) s)
           = snd (snd (fuse now (Some (fresh (heap s))) (last_wifi_result eng)
                          (f, snd (alloc d (heap s)))))"
    by (simp add: camera_step_def get_fused_result_def Let_def alloc_def heap_broadcast)
next
  assume a: "ml_engine s = Some eng \<and> camera eng \<and> mode eng \<noteq> HYBRID"
  then show "latest_detection (camera_step ok now (Some d) s) = Some (fresh (heap s))"
    by (simp add: camera_step_def Let_def alloc_def latest_broadcast)
  from a show "objs (heap (camera_step ok now (Some d) s)) (fresh (heap s)) = d"
    by (simp add: camera_step_def Let_def alloc_def heap_broadcast)
qed

theorem get_latest_resends_stored_witness:
  "(latest_detection (esp8266_datagram_received dec_int (\<lambda>c. True) 1 ''RSS:-50'' ex_server)
      = Some 3 \<and>
    \<not> np_scalar (objs (heap (esp8266_datagram_received dec_int (\<lambda>c. True) 1 ''RSS:-50''
          ex_server)) 3)) \<and>
   fst (websocket_receive_text Sent 7 ''get_latest''
          (esp8266_datagram_received dec_int (\<lambda>c. True) 1 ''RSS:-50'' ex_server)) = Continue \<and>
   last (outbox (snd (websocket_receive_text Sent 7 ''get_latest''
          (esp8266_datagram_received dec_int (\<lambda>c. True) 1 ''RSS:-50'' ex_server))))
     = (7, serialize_detection_result ((new_result 1 WIFI_RSSI False 0)\<lparr> rssi := Some (- 50) \<rparr>)) \<and>
   latest_detection ex_server = None \<and>
   websocket_receive_text Disconnected 7 ''get_latest'' ex_server = (Continue, ex_server) \<and>
   (startswith ''RSS:-50'' ''RSS:'' \<and> split_on CHR '':'' ''RSS:-50'' = [''RSS'', ''-50''] \<and>
    dec_int ''-50'' = Some (- 50) \<and> ml_engine ex_server = Some ex_ml_engine \<and>
    esp8266 ex_ml_engine = Some ex_rssi_module) \<and>
   (64 \<le> length (split_on CHR '','' ex_csi_datagram) \<and>
    parse_csi dec_float (split_on CHR '','' ex_csi_datagram) = Some ex_csi_sample \<and>
    esp32 ex_ml_engine = Some ex_csi_module) \<and>
   objs (heap (esp32_datagram_received dec_float (\<lambda>c. True) 1 ex_csi_datagram ex_server)) 3
     = fst (process_csi 1 ex_csi_sample ex_csi_module) \<and>
   (camera ex_ml_engine \<and> mode ex_ml_engine = HYBRID \<and> fusion ex_ml_engine = Some ex_engine) \<and>
   latest_detection (camera_step (\<lambda>c. True) 5 (Some ex_cam_motion) ex_server) = Some 3 \<and>
   source (objs (heap (camera_step (\<lambda>c. True) 5 (Some ex_cam_motion) ex_server)) 3) = FUSION \<and>
   (camera (ex_ml_engine\<lparr> mode := CAMERA_ONLY \<rparr>) \<and>
    mode (ex_ml_engine\<lparr> mode := CAMERA_ONLY \<rparr>) \<noteq> HYBRID) \<and>
   objs (heap (camera_step (\<lambda>c. True) 5 (Some ex_cam_motion)
           (ex_server\<lparr> ml_engine := Some (ex_ml_engine\<lparr> mode := CAMERA_ONLY \<rparr>) \<rparr>))) 3
     = ex_cam_motion"
  using
    get_latest_resends_stored [where
      s = "esp8266_datagram_received dec_int (\<lambda>c. True) 1 ''RSS:-50'' ex_server"
      and r = 3 and c = 7 and out = Disconnected and ok = "\<lambda>c. True"
      and result = None and message = "''RSS:-50''" and ?p0.0 = "''RSS''"
      and field = "''-50''" and rest = "[]" and py_int = dec_int and v = "- 50"
      and eng = ex_ml_engine and m = ex_rssi_module and now = 1 and py_float = dec_float
      and csi = ex_csi_sample and m' = ex_csi_module and f = ex_engine
      and d = ex_cam_motion]
    get_latest_resends_stored [where s = ex_server and r = 3 and c = 7
      and out = Disconnected and ok = "\<lambda>c. True" and result = None
      and message = "''RSS:-50''" and ?p0.0 = "''RSS''" and field = "''-50''"
      and rest = "[]" and py_int = dec_int and v = "- 50" and eng = ex_ml_engine
      and m = ex_rssi_module and now = 1 and py_float = dec_float and csi = ex_csi_sample
      and m' = ex_csi_module and f = ex_engine and d = ex_cam_motion]
    get_latest_resends_stored [where s = ex_server and r = 3 and c = 7
      and out = Disconnected and ok = "\<lambda>c. True" and result = None
      and message = ex_csi_datagram and ?p0.0 = "''RSS''" and field = "''-50''"
      and rest = "[]" and py_int = dec_int and v = "- 50" and eng = ex_ml_engine
      and m = ex_rssi_module and now = 1 and py_float = dec_float and csi = ex_csi_sample
      and m' = ex_csi_module and f = ex_engine and d = ex_cam_motion]
    get_latest_resends_stored [where s = ex_server and r = 3 and c = 7
      and out = Disconnected and ok = "\<lambda>c. True" and result = None
      and message = "''RSS:-50''" and ?p0.0 = "''RSS''" and field = "''-50''"
      and rest = "[]" and py_int = dec_int and v = "- 50" and eng = ex_ml_engine
      and m = ex_rssi_module and now = 5 and py_float = dec_float and csi = ex_csi_sample
      and m' = ex_csi_module and f = ex_engine and d = ex_cam_motion]
    get_latest_resends_stored [where
      s = "ex_server\<lparr> ml_engine := Some (ex_ml_engine\<lparr> mode := CAMERA_ONLY \<rparr>) \<rparr>"
      and r = 3 and c = 7 and out = Disconnected and ok = "\<lambda>c. True"
      and result = None and message = "''RSS:-50''" and ?p0.0 = "''RSS''"
      and field = "''-50''" and rest = "[]" and py_int = dec_int and v = "- 50"
      and eng = "ex_ml_engine\<lparr> mode := CAMERA_ONLY \<rparr>" and m = ex_rssi_module
      and now = 5 and py_float = dec_float and csi = ex_csi_sample and m' = ex_csi_module
      and f = ex_engine and d = ex_cam_motion]
  unfolding first_rss_datagram
  by (simp add: startswith_def split_rss dec_int_m50 split_csi_datagram
      parse_csi_datagram ex_server_def ex_ml_engine_def ex_store_def
      alloc_def fuse_def assign_def ex_cam_motion_def new_result_def
      process_rssi_def push_window_def ex_rssi_module_def Let_def)

section \<open>Fine-signal datagrams\<close>

lemma esp32_discards:
  "(length (split_on CHR '','' message) < 64 \<longrightarrow>
      esp32_datagram_received py_float ok now message s = s)
   \<and> (parse_csi py_float (split_on CHR '','' message) = None \<longrightarrow>
      esp32_datagram_received py_float ok now message s = s)"
  by (simp add: esp32_datagram_received_def Let_def)

text \<open>
  C7 fails on the code at a datagram of exactly 64 fields. The handler's comment gives
  the format as a timestamp and 64 amplitudes, 65 fields, and its slice \<^verbatim>\<open>parts[1:65]\<close>
  reaches for 64 amplitudes, but its guard is \<^verbatim>\<open>len(parts) >= 64\<close>. The example
  datagram has 64 fields, fewer than 65; it is not discarded: its 63 amplitudes are
  pushed into the adapter's window, which was empty, and the event made from them
  becomes \<open>latest_detection\<close>. Its broadcast writes no frame, \<open>motion_detected\<close> being a
  \<^verbatim>\<open>numpy.bool_\<close>, and removes the three subscribers from the registry.
\<close>

theorem esp32_short_datagram_forwarded:
  "length (split_on CHR '','' ex_csi_datagram) = 64 \<and>
   length ex_csi_sample = 63 \<and>
   map_option (\<lambda>e. map_option csi_window (esp32 e)) (ml_engine ex_server) = Some (Some []) \<and>
   map_option (\<lambda>e. map_option csi_window (esp32 e))
       (ml_engine (esp32_datagram_received dec_float (\<lambda>c. True) 1 ex_csi_datagram ex_server))
     = Some (Some [ex_csi_sample]) \<and>
   latest_detection (esp32_datagram_received dec_float (\<lambda>c. True) 1 ex_csi_datagram ex_server)
     = Some 3 \<and>
   csi_data (objs (heap (esp32_datagram_received dec_float (\<lambda>c. True) 1 ex_csi_datagram
       ex_server)) 3) = Some ex_csi_sample \<and>
   outbox (esp32_datagram_received dec_float (\<lambda>c. True) 1 ex_csi_datagram ex_server) = [] \<and>
   websocket_clients ex_server = [7, 8, 9] \<and>
   websocket_clients (esp32_datagram_received dec_float (\<lambda>c. True) 1 ex_csi_datagram ex_server)
     = []"
proof -
  have len: "length (split_on CHR '','' ex_csi_datagram) = 64"
    unfolding split_csi_datagram by simp
  have len63: "length ex_csi_sample = 63"
    by (simp add: ex_csi_sample_def)
  have run: "esp32_datagram_received dec_float (\<lambda>c. True) 1 ex_csi_datagram ex_server
      = snd (broadcast_detection (\<lambda>c. True) (Some 3)
          (ex_server\<lparr> ml_engine := Some (ex_ml_engine\<lparr> esp32 :=
               Some (snd (process_csi 1 ex_csi_sample ex_csi_module)) \<rparr>),
             heap := snd (alloc (fst (process_csi 1 ex_csi_sample ex_csi_module)) ex_store) \<rparr>))"
    unfolding esp32_datagram_received_def Let_def len split_csi_datagram parse_csi_datagram
    by (simp add: process_esp32_csi_def Let_def alloc_def ex_server_def ex_ml_engine_def
        ex_store_def)
  have win: "csi_window (snd (process_csi 1 ex_csi_sample ex_csi_module)) = [ex_csi_sample]"
    by (simp add: process_csi_snd push_window_def ex_csi_module_def)
  have dat: "csi_data (fst (process_csi 1 ex_csi_sample ex_csi_module)) = Some ex_csi_sample"
    by (simp add: process_csi_def Let_def)
  have np: "np_scalar (fst (process_csi 1 ex_csi_sample ex_csi_module))"
    by (simp add: process_csi_def Let_def)
  have w0: "csi_window ex_csi_module = []"
    by (simp add: ex_csi_module_def)
  show ?thesis
    unfolding run
    using np
    by (simp add: len len63 win dat w0 broadcast_detection_unencodable alloc_def ex_server_def
        ex_ml_engine_def ex_store_def)
qed

end
